theory Spec2Isabelle
  imports Complex_Main "HOL-Library.Sublist" "HOL-Library.Multiset"
begin

section \<open>Data model\<close>

text \<open>
  The tables of the relational store are lists of rows, in the order the store returns
  them. Every instant (a JavaScript \<open>Date\<close>, a column of type \<open>DATE\<close>) is its number
  of milliseconds since the epoch. Integer columns and the GraphQL \<open>Int\<close> values are
  \<open>int\<close>; the \<open>FLOAT\<close> column \<open>price\<close> is only carried around, never computed with,
  and is a \<open>rat\<close>.

  Several model classes have fields of the same name, so the fields of the rows carry a
  prefix naming their class: \<open>st_palletAmount\<close> is \<open>palletAmount\<close> of \<open>Storage\<close>,
  \<open>lp_validFrom\<close> is \<open>validFrom\<close> of \<open>LocationPrice\<close>, and so on.
\<close>

type_synonym instant = int

record Product =
  prod_productId :: int
  prod_productName :: string
  prod_productAmount :: int

record Storage =
  st_storageId :: int
  st_locationId :: int
  st_productId :: int
  st_palletAmount :: int
  st_createdAt :: instant

record LocationPrice =
  lp_locationPriceId :: int
  lp_price :: rat
  lp_validFrom :: instant
  lp_locationId :: int

text \<open>
  A \<open>Location\<close> instance carries its columns and the two associations a query may load
  into it; \<open>loc_locationPrices\<close> is \<open>None\<close> while the property is undefined.
\<close>

record Location =
  loc_locationId :: int
  loc_locationName :: string
  loc_address :: string
  loc_postCode :: string
  loc_city :: string
  loc_locationType :: string
  loc_locationPrices :: "LocationPrice list option"
  loc_storages :: "Storage list"

record Order =
  ord_orderId :: int
  ord_locationId :: int
  ord_status :: string
  ord_createdAt :: instant

record OrderRow =
  orow_orderId :: int
  orow_productId :: int
  orow_palletAmount :: int

record db =
  locations :: "Location list"
  storages :: "Storage list"
  products :: "Product list"
  locationPrices :: "LocationPrice list"
  orders :: "Order list"
  orderRows :: "OrderRow list"

text \<open>
  A rejected resolver is \<open>Inl\<close> of its error: a JavaScript \<open>Error\<close> with its message, or
  the \<open>SequelizeDatabaseError\<close> of a statement that the store refuses (its message is
  not modelled).
\<close>

datatype error = Error string | SequelizeDatabaseError

section \<open>The report resolver\<close>

text \<open>The two date strings of the input are taken as parsed, into valid instants.\<close>

record ReportInput =
  startDate :: instant
  endDate :: instant
  locationIds :: "int list"

record ProductReport =
  product :: Product
  palletAmount :: int
  cost :: int

record DailyReport =
  date :: instant
  productReports :: "ProductReport list"
  totalDailyPallets :: int
  totalDailyCost :: int

record LocationReport =
  location :: Location
  dailyReports :: "DailyReport list"
  totalCost :: int

record Report =
  locationReports :: "LocationReport list"

subsection \<open>reportUtils: createProductReports and createDailyReports\<close>

text \<open>
  \<open>createProductReports\<close> pushes one report per product, in the order of \<open>products\<close>,
  with the two constants the source marks as placeholders.
\<close>

definition createProductReports :: "Location \<Rightarrow> instant \<Rightarrow> Product list \<Rightarrow> ProductReport list" where
  "createProductReports loc d ps =
     map (\<lambda>p. \<lparr>product = p, palletAmount = 5, cost = 25\<rparr>) ps"

definition msPerDay :: int where
  "msPerDay = 86400000"

text \<open>
  \<open>d.setDate(d.getDate() + 1)\<close> moves \<open>d\<close> to the same local time on the next calendar
  day of the server's time zone. The zone is a parameter of the model: it is given by
  that step, a function from an instant to a later instant. In a zone with a fixed
  offset, such as UTC, the step is one day of milliseconds; across a change between
  summer and winter time it is an hour shorter or longer.
\<close>

typedef zone = "{f :: instant \<Rightarrow> instant. \<forall>d. d < f d}"
  by (rule exI [of _ "\<lambda>d. d + 1"]) simp

setup_lifting type_definition_zone

lift_definition nextDay :: "zone \<Rightarrow> instant \<Rightarrow> instant" is "\<lambda>f. f" .

lift_definition utc :: zone is "\<lambda>d. d + msPerDay"
  by (simp add: msPerDay_def)

definition dailyReport :: "Location \<Rightarrow> Product list \<Rightarrow> instant \<Rightarrow> DailyReport" where
  "dailyReport loc ps d =
     (let prs = createProductReports loc d ps in
      \<lparr>date = d,
       productReports = prs,
       totalDailyPallets = foldl (\<lambda>total r. total + palletAmount r) 0 prs,
       totalDailyCost = foldl (\<lambda>total r. total + cost r) 0 prs\<rparr>)"

text \<open>
  The loop \<open>for (d = new Date(startDate); d <= endDate; d.setDate(d.getDate() + 1))\<close>
  with the array it pushes to as an accumulator. The field \<open>date\<close> holds the instant
  that \<open>d.toISOString()\<close> prints.
\<close>

function dailyLoop ::
  "zone \<Rightarrow> instant \<Rightarrow> instant \<Rightarrow> Location \<Rightarrow> Product list \<Rightarrow> DailyReport list
     \<Rightarrow> DailyReport list" where
  "dailyLoop z d e loc ps acc =
     (if d \<le> e then dailyLoop z (nextDay z d) e loc ps (acc @ [dailyReport loc ps d]) else acc)"
  by pat_completeness auto
termination
proof (relation "measure (\<lambda>(z, d, e, loc, ps, acc). nat (e + 1 - d))")
  fix z :: zone and d e :: instant and loc :: Location and ps :: "Product list"
    and acc :: "DailyReport list"
  assume "d \<le> e"
  moreover have "d < nextDay z d"
    using Rep_zone [of z] by (simp add: nextDay.rep_eq)
  ultimately show "((z, nextDay z d, e, loc, ps, acc @ [dailyReport loc ps d]), (z, d, e, loc, ps, acc))
      \<in> measure (\<lambda>(z, d, e, loc, ps, acc). nat (e + 1 - d))"
    by simp
qed simp

declare dailyLoop.simps [simp del]

definition createDailyReports ::
  "zone \<Rightarrow> db \<Rightarrow> instant \<Rightarrow> instant \<Rightarrow> Location \<Rightarrow> DailyReport list" where
  "createDailyReports z s sd ed loc = dailyLoop z sd ed loc (products s) []"

subsection \<open>The price query\<close>

text \<open>The SQL aggregate \<open>MAX\<close>: \<open>NULL\<close> (here \<open>None\<close>) over no rows.\<close>

definition sqlMax :: "int list \<Rightarrow> int option" where
  "sqlMax xs = (case xs of [] \<Rightarrow> None | x # ys \<Rightarrow> Some (foldl max x ys))"

text \<open>
  First branch of \<open>priceQuery\<close>: the rows whose \<open>validFrom\<close> equals the greatest
  \<open>validFrom\<close> not after \<open>startDate\<close> among the rows of the same location. A comparison
  with \<open>NULL\<close> is not true, so a location with no such row contributes nothing.
\<close>

definition validOnStart :: "LocationPrice list \<Rightarrow> int list \<Rightarrow> instant \<Rightarrow> LocationPrice list" where
  "validOnStart tbl ids sd =
     filter (\<lambda>lp.
        Some (lp_validFrom lp) =
          sqlMax (map lp_validFrom
            (filter (\<lambda>lp2. lp_validFrom lp2 \<le> sd \<and> lp_locationId lp2 = lp_locationId lp) tbl))
        \<and> lp_locationId lp \<in> set ids) tbl"

text \<open>Second branch: the price changes within the date range.\<close>

definition changesInRange ::
  "LocationPrice list \<Rightarrow> int list \<Rightarrow> instant \<Rightarrow> instant \<Rightarrow> LocationPrice list" where
  "changesInRange tbl ids sd ed =
     filter (\<lambda>lp. lp_validFrom lp \<ge> sd \<and> lp_validFrom lp \<le> ed \<and> lp_locationId lp \<in> set ids) tbl"

text \<open>
  The raw query. The replacement of \<open>:locationIds\<close> by an empty array leaves \<open>IN ()\<close>,
  which the store refuses. Otherwise \<open>UNION\<close> keeps one copy of every row of the two
  branches.
\<close>

definition priceQuery ::
  "LocationPrice list \<Rightarrow> int list \<Rightarrow> instant \<Rightarrow> instant \<Rightarrow> error + LocationPrice list" where
  "priceQuery tbl ids sd ed =
     (if ids = [] then Inl SequelizeDatabaseError
      else Inr (remdups (validOnStart tbl ids sd @ changesInRange tbl ids sd ed)))"

subsection \<open>The resolver\<close>

text \<open>
  \<open>Location.findAll\<close> with \<open>locationId IN locationIds\<close>, each location with its storage
  rows loaded and its prices not loaded.
\<close>

definition findLocations :: "db \<Rightarrow> int list \<Rightarrow> Location list" where
  "findLocations s ids =
     map (\<lambda>l. l\<lparr>loc_locationPrices := None,
                 loc_storages := filter (\<lambda>st. st_locationId st = loc_locationId l) (storages s)\<rparr>)
       (filter (\<lambda>l. loc_locationId l \<in> set ids) (locations s))"

text \<open>
  One round of \<open>locationPrices.forEach\<close>: the price is pushed to the first location
  with its \<open>locationId\<close>, whose \<open>locationPrices\<close> becomes an array first when undefined.
\<close>

fun pushPrice :: "LocationPrice \<Rightarrow> Location list \<Rightarrow> Location list" where
  "pushPrice lp [] = []"
| "pushPrice lp (l # ls) =
     (if loc_locationId l = lp_locationId lp
      then l\<lparr>loc_locationPrices :=
             Some ((case loc_locationPrices l of None \<Rightarrow> [] | Some ps \<Rightarrow> ps) @ [lp])\<rparr> # ls
      else l # pushPrice lp ls)"

definition addPrices :: "LocationPrice list \<Rightarrow> Location list \<Rightarrow> Location list" where
  "addPrices lps locs = foldl (\<lambda>ls lp. pushPrice lp ls) locs lps"

definition locationReport ::
  "zone \<Rightarrow> db \<Rightarrow> instant \<Rightarrow> instant \<Rightarrow> Location \<Rightarrow> LocationReport" where
  "locationReport z s sd ed loc =
     (let drs = createDailyReports z s sd ed loc in
      \<lparr>location = loc,
       dailyReports = drs,
       totalCost = foldl (\<lambda>total r. total + totalDailyCost r) 0 drs\<rparr>)"

text \<open>
  The first part of the resolver: the locations are fetched, then the prices, which are
  added to their locations. The resolver has no \<open>try\<close>: when the price query is refused,
  it rejects with that error.
\<close>

definition reportLocations :: "db \<Rightarrow> ReportInput \<Rightarrow> error + Location list" where
  "reportLocations s inp =
     (let locs = findLocations s (locationIds inp) in
      case priceQuery (locationPrices s) (locationIds inp) (startDate inp) (endDate inp) of
        Inl e \<Rightarrow> Inl e
      | Inr lps \<Rightarrow> Inr (addPrices lps locs))"

text \<open>
  The resolver \<open>report\<close>, on a server of time zone \<open>z\<close>. It has no \<open>throw\<close> and no check
  of its input.
\<close>

definition report :: "zone \<Rightarrow> db \<Rightarrow> ReportInput \<Rightarrow> error + Report" where
  "report z s inp =
     (case reportLocations s inp of
        Inl e \<Rightarrow> Inl e
      | Inr locs \<Rightarrow>
          Inr \<lparr>locationReports = map (locationReport z s (startDate inp) (endDate inp)) locs\<rparr>)"

section \<open>The storage resolvers\<close>

text \<open>
  The authorization checks (\<open>checkHasRole\<close>, \<open>checkAdmin\<close>, \<open>checkAdminOrOwner\<close>) are
  called before the \<open>try\<close> block of a resolver and throw when the caller may not proceed.
  Their module, \<open>util/authorizationChecks\<close>, is not modelled: every resolver takes the
  outcome of its check as an argument, \<open>None\<close> when the check passes and the thrown
  error otherwise.
\<close>

text \<open>The location type \<open>K\<adieresis>sittelylaitos\<close> (processing facility), in UTF-8.\<close>

definition facilityType :: string where
  "facilityType = ''K'' @ [CHR 0xC3, CHR 0xA4] @ ''sittelylaitos''"

text \<open>
  \<open>SELECT "productId", MAX("createdAt") ... GROUP BY "productId"\<close> over the given rows:
  one pair for every product that has a row.
\<close>

definition maxCreatedAtByProduct :: "Storage list \<Rightarrow> (int \<times> instant option) list" where
  "maxCreatedAtByProduct rows =
     map (\<lambda>p. (p, sqlMax (map st_createdAt (filter (\<lambda>st. st_productId st = p) rows))))
       (remdups (map st_productId rows))"

text \<open>
  The join of \<open>storage\<close> with the \<open>location\<close> rows of type processing facility
  (\<open>locationId\<close> is the primary key of \<open>location\<close>).
\<close>

definition facilityStorages :: "db \<Rightarrow> Storage list" where
  "facilityStorages s =
     filter (\<lambda>st. list_ex (\<lambda>l. loc_locationId l = st_locationId st
                                \<and> loc_locationType l = facilityType) (locations s))
       (storages s)"

text \<open>
  The first query of \<open>availableStorages\<close>: the facility rows whose pair
  \<open>(productId, createdAt)\<close> is in the grouped subquery, ordered by \<open>productId\<close>.
\<close>

definition latestFacilityStorages :: "db \<Rightarrow> Storage list" where
  "latestFacilityStorages s =
     sort_key st_productId
       (filter (\<lambda>st. (st_productId st, Some (st_createdAt st))
                        \<in> set (maxCreatedAtByProduct (facilityStorages s)))
          (facilityStorages s))"

text \<open>The order rows whose order has status \<open>Avattu\<close> (open).\<close>

definition openOrderRows :: "db \<Rightarrow> OrderRow list" where
  "openOrderRows s =
     filter (\<lambda>r. list_ex (\<lambda>ord. ord_orderId ord = orow_orderId r \<and> ord_status ord = ''Avattu'')
                   (orders s))
       (orderRows s)"

definition reservedAmount :: "OrderRow list \<Rightarrow> int \<Rightarrow> int" where
  "reservedAmount rows p =
     foldl (\<lambda>total row. total + orow_palletAmount row) 0
       (filter (\<lambda>row. orow_productId row = p) rows)"

text \<open>
  The resolver. The object spread \<open>{...storage, palletAmount: ...}\<close> is taken to keep the
  columns of the row and to replace \<open>palletAmount\<close>.
\<close>

definition availableStorages :: "error option \<Rightarrow> db \<Rightarrow> error + Storage list" where
  "availableStorages checkHasRole s =
     (case checkHasRole of
        Some e \<Rightarrow> Inl e
      | None \<Rightarrow>
          Inr (map (\<lambda>st. st\<lparr>st_palletAmount :=
                              st_palletAmount st - reservedAmount (openOrderRows s) (st_productId st)\<rparr>)
                 (latestFacilityStorages s)))"

subsection \<open>collectPallets and addPallets\<close>

record StorageRowInput =
  row_productId :: int
  row_palletAmount :: int

record StorageInput =
  in_locationId :: int
  storageRows :: "StorageRowInput list"

text \<open>The plain objects handed to \<open>Storage.bulkCreate\<close>.\<close>

record NewStorage =
  new_locationId :: int
  new_productId :: int
  new_palletAmount :: int

text \<open>
  The columns \<open>locationId\<close>, \<open>productId\<close> and \<open>palletAmount\<close> are of type \<open>INTEGER\<close>:
  the store refuses a value outside 32 bits.
\<close>

definition inInteger :: "int \<Rightarrow> bool" where
  "inInteger x = (- 2147483648 \<le> x \<and> x \<le> 2147483647)"

text \<open>
  \<open>Storage.bulkCreate\<close> and \<open>Storage.create\<close> insert rows with one statement: the store
  numbers them on from the greatest \<open>storageId\<close> and stamps them with the time of the
  call, or refuses the statement and inserts nothing.
\<close>

definition nextStorageId :: "Storage list \<Rightarrow> int" where
  "nextStorageId tbl = (case sqlMax (map st_storageId tbl) of None \<Rightarrow> 1 | Some m \<Rightarrow> m + 1)"

definition bulkCreate :: "instant \<Rightarrow> NewStorage list \<Rightarrow> db \<Rightarrow> error + db" where
  "bulkCreate now rows s =
     (if list_all (\<lambda>r. inInteger (new_locationId r) \<and> inInteger (new_productId r)
                         \<and> inInteger (new_palletAmount r)) rows
      then Inr (s\<lparr>storages := storages s @
             map (\<lambda>(i, r). \<lparr>st_storageId = nextStorageId (storages s) + int i,
                            st_locationId = new_locationId r,
                            st_productId = new_productId r,
                            st_palletAmount = new_palletAmount r,
                            st_createdAt = now\<rparr>)
               (enumerate 0 rows)\<rparr>)
      else Inl SequelizeDatabaseError)"

text \<open>
  The "current storages" query of both mutations. Only the subquery is restricted to
  the location; the outer \<open>findAll\<close> ranges over the whole table.
\<close>

definition currentStorages :: "db \<Rightarrow> int \<Rightarrow> Storage list" where
  "currentStorages s lid =
     filter (\<lambda>st. (st_productId st, Some (st_createdAt st))
                     \<in> set (maxCreatedAtByProduct (filter (\<lambda>x. st_locationId x = lid) (storages s))))
       (storages s)"

definition collectRows :: "Storage list \<Rightarrow> StorageInput \<Rightarrow> NewStorage list" where
  "collectRows current inp =
     map (\<lambda>row.
        \<lparr>new_locationId = in_locationId inp,
         new_productId = row_productId row,
         new_palletAmount =
           (case find (\<lambda>st. st_productId st = row_productId row) current of
              None \<Rightarrow> row_palletAmount row
            | Some st \<Rightarrow>
                if st_palletAmount st \<noteq> 0 then st_palletAmount st + row_palletAmount row
                else row_palletAmount row)\<rparr>)
       (storageRows inp)"

definition addRows :: "Storage list \<Rightarrow> StorageInput \<Rightarrow> NewStorage list" where
  "addRows current inp =
     map (\<lambda>row.
        \<lparr>new_locationId = in_locationId inp,
         new_productId = row_productId row,
         new_palletAmount = row_palletAmount row\<rparr>)
       (storageRows inp)"

text \<open>\<open>rows[0]\<close>, undefined for an empty array.\<close>

definition firstRow :: "'a list \<Rightarrow> 'a option" where
  "firstRow rows = (case rows of [] \<Rightarrow> None | r # _ \<Rightarrow> Some r)"

text \<open>
  Neither mutation awaits \<open>bulkCreate\<close>: it returns \<open>rows[0]\<close> whether the insert succeeds
  or not, and a refused insert leaves the table as it was.
\<close>

definition unawaited :: "error + db \<Rightarrow> db \<Rightarrow> db" where
  "unawaited r s = (case r of Inl e \<Rightarrow> s | Inr s' \<Rightarrow> s')"

definition collectPallets ::
  "error option \<Rightarrow> instant \<Rightarrow> StorageInput \<Rightarrow> db \<Rightarrow> (error + NewStorage option) \<times> db" where
  "collectPallets checkHasRole now inp s =
     (case checkHasRole of
        Some e \<Rightarrow> (Inl e, s)
      | None \<Rightarrow>
          (let rows = collectRows (currentStorages s (in_locationId inp)) inp
           in (Inr (firstRow rows), unawaited (bulkCreate now rows s) s)))"

definition addPallets ::
  "error option \<Rightarrow> instant \<Rightarrow> StorageInput \<Rightarrow> db \<Rightarrow> (error + NewStorage option) \<times> db" where
  "addPallets checkHasRole now inp s =
     (case checkHasRole of
        Some e \<Rightarrow> (Inl e, s)
      | None \<Rightarrow>
          (let rows = addRows (currentStorages s (in_locationId inp)) inp
           in (Inr (firstRow rows), unawaited (bulkCreate now rows s) s)))"

section \<open>The location resolvers\<close>

subsection \<open>locationsWithStorages\<close>

text \<open>The join of \<open>storage\<close> with \<open>location\<close> on \<open>locationId\<close>.\<close>

definition joinedStorages :: "db \<Rightarrow> Storage list" where
  "joinedStorages s =
     filter (\<lambda>st. list_ex (\<lambda>l. loc_locationId l = st_locationId st) (locations s)) (storages s)"

text \<open>
  The subquery with \<open>ROW_NUMBER() OVER (PARTITION BY productId, locationId ORDER BY
  createdAt DESC)\<close>: of every partition, the columns \<open>productId\<close>, \<open>locationId\<close> and
  \<open>createdAt\<close> of the row numbered 1.
\<close>

definition rowNumberOne :: "Storage list \<Rightarrow> (int \<times> int \<times> instant) list" where
  "rowNumberOne rows =
     concat (map (\<lambda>k.
        case sort_key (\<lambda>st. - st_createdAt st)
               (filter (\<lambda>st. (st_productId st, st_locationId st) = k) rows) of
          [] \<Rightarrow> []
        | r # _ \<Rightarrow> [(st_productId r, st_locationId r, st_createdAt r)])
       (remdups (map (\<lambda>st. (st_productId st, st_locationId st)) rows)))"

text \<open>The storage rows loaded into one location: its rows whose triple is in the subquery.\<close>

definition latestStorages :: "db \<Rightarrow> Location \<Rightarrow> Storage list" where
  "latestStorages s l =
     filter (\<lambda>st. st_locationId st = loc_locationId l
                 \<and> (st_productId st, loc_locationId l, st_createdAt st)
                     \<in> set (rowNumberOne (joinedStorages s)))
       (storages s)"

text \<open>The price loaded into one location: \<open>validFrom <= currentDate\<close>, latest first, one row.\<close>

definition currentPrice :: "db \<Rightarrow> instant \<Rightarrow> Location \<Rightarrow> LocationPrice list" where
  "currentPrice s now l =
     take 1 (sort_key (\<lambda>lp. - lp_validFrom lp)
       (filter (\<lambda>lp. lp_locationId lp = loc_locationId l \<and> lp_validFrom lp \<le> now)
          (locationPrices s)))"

text \<open>
  The resolver. The \<open>where\<close> of the storage include makes the join an inner one, so a
  location with no storage row is not returned.
\<close>

definition locationsWithStorages ::
  "error option \<Rightarrow> instant \<Rightarrow> int list \<Rightarrow> db \<Rightarrow> error + Location list" where
  "locationsWithStorages checkAdminOrOwner now ids s =
     (if ids = [] then Inl (Error ''Invalid input: locationIds must be a non-empty array.'')
      else case checkAdminOrOwner of
        Some e \<Rightarrow> Inl e
      | None \<Rightarrow>
          Inr (sort_key loc_locationId
                (filter (\<lambda>l. loc_storages l \<noteq> [])
                   (map (\<lambda>l. l\<lparr>loc_locationPrices := Some (currentPrice s now l),
                               loc_storages := latestStorages s l\<rparr>)
                      (filter (\<lambda>l. loc_locationId l \<in> set ids) (locations s))))))"

subsection \<open>addStorageToLocation\<close>

text \<open>
  The body of the \<open>try\<close> block, with the errors it throws; \<open>Storage.create\<close> is awaited,
  so a refused insert is one of them.
\<close>

definition addStorageToLocation_try ::
  "instant \<Rightarrow> int \<Rightarrow> int \<Rightarrow> int \<Rightarrow> db \<Rightarrow> (error + Storage) \<times> db" where
  "addStorageToLocation_try now lid pid amount s =
     (if find (\<lambda>l. loc_locationId l = lid) (locations s) = None
         \<or> find (\<lambda>p. prod_productId p = pid) (products s) = None
      then (Inl (Error ''Location or Product not found''), s)
      else if find (\<lambda>st. st_locationId st = lid \<and> st_productId st = pid) (storages s) \<noteq> None
      then (Inl (Error ''Product already exists for this Location''), s)
      else
        (case bulkCreate now
                [\<lparr>new_locationId = lid, new_productId = pid, new_palletAmount = amount\<rparr>] s of
           Inl e \<Rightarrow> (Inl e, s)
         | Inr s' \<Rightarrow> (Inr (last (storages s')), s')))"

text \<open>
  The resolver: whatever the \<open>try\<close> block throws is caught, printed to the console and
  replaced by one error.
\<close>

definition addStorageToLocation ::
  "error option \<Rightarrow> instant \<Rightarrow> int \<Rightarrow> int \<Rightarrow> int \<Rightarrow> db \<Rightarrow> (error + Storage) \<times> db" where
  "addStorageToLocation checkAdminOrOwner now lid pid amount s =
     (case checkAdminOrOwner of
        Some e \<Rightarrow> (Inl e, s)
      | None \<Rightarrow>
          (case addStorageToLocation_try now lid pid amount s of
             (Inl e, s') \<Rightarrow> (Inl (Error ''Error adding Storage to Location''), s')
           | (Inr st, s') \<Rightarrow> (Inr st, s')))"

section \<open>Sequences of mutations\<close>

text \<open>The mutations of the sources that write to the \<open>storage\<close> table, with their arguments.\<close>

datatype mutation =
    CollectPallets "error option" instant StorageInput
  | AddPallets "error option" instant StorageInput
  | AddStorageToLocation "error option" instant int int int

fun applyMutation :: "mutation \<Rightarrow> db \<Rightarrow> db" where
  "applyMutation (CollectPallets chk now inp) s = snd (collectPallets chk now inp s)"
| "applyMutation (AddPallets chk now inp) s = snd (addPallets chk now inp s)"
| "applyMutation (AddStorageToLocation chk now lid pid amount) s =
     snd (addStorageToLocation chk now lid pid amount s)"

definition applyMutations :: "mutation list \<Rightarrow> db \<Rightarrow> db" where
  "applyMutations ms s = foldl (\<lambda>s m. applyMutation m s) s ms"

text \<open>The history of one key: its rows, oldest insertion first.\<close>

definition history :: "db \<Rightarrow> int \<Rightarrow> int \<Rightarrow> Storage list" where
  "history s lid pid = filter (\<lambda>st. st_locationId st = lid \<and> st_productId st = pid) (storages s)"

section \<open>Example data\<close>

text \<open>
  A part of the rows that \<open>insertTestData\<close> creates: the first carrier, the first
  product, its three storage rows up to January 2024 and the first two prices.
\<close>

definition mkLocation :: "int \<Rightarrow> string \<Rightarrow> string \<Rightarrow> Location" where
  "mkLocation i name ty =
     \<lparr>loc_locationId = i, loc_locationName = name, loc_address = ''Address 1'',
      loc_postCode = ''01600'', loc_city = ''Vantaa'', loc_locationType = ty,
      loc_locationPrices = None, loc_storages = []\<rparr>"

definition mkStorage :: "int \<Rightarrow> int \<Rightarrow> int \<Rightarrow> int \<Rightarrow> instant \<Rightarrow> Storage" where
  "mkStorage i lid pid amount t =
     \<lparr>st_storageId = i, st_locationId = lid, st_productId = pid, st_palletAmount = amount,
      st_createdAt = t\<rparr>"

definition mkPrice :: "int \<Rightarrow> int \<Rightarrow> rat \<Rightarrow> instant \<Rightarrow> LocationPrice" where
  "mkPrice i lid p t =
     \<lparr>lp_locationPriceId = i, lp_price = p, lp_validFrom = t, lp_locationId = lid\<rparr>"

definition paristolaatikko :: Product where
  "paristolaatikko =
     \<lparr>prod_productId = 1, prod_productName = ''Paristolaatikko'', prod_productAmount = 30\<rparr>"

definition testData :: db where
  "testData =
     \<lparr>locations = [mkLocation 1 ''Kuljetus Korhonen'' ''Kuljetusliike''],
      storages =
        [mkStorage 1 1 1 20 1703781219175,
         mkStorage 2 1 1 60 1704120942100,
         mkStorage 3 1 1 70 1706126515162],
      products = [paristolaatikko],
      locationPrices =
        [mkPrice 1 1 (5095 / 100) 1704067200000,
         mkPrice 2 1 (504 / 10) 1705276800000],
      orders = [],
      orderRows = []\<rparr>"

text \<open>The report of January 2024 for location 1, and the same range reversed.\<close>

definition january :: ReportInput where
  "january = \<lparr>startDate = 1704067200000, endDate = 1706659200000, locationIds = [1]\<rparr>"


text \<open>Two prices of location 1 with the same \<open>validFrom\<close>, 1 January 2024.\<close>

definition duplicatePrices :: "LocationPrice list" where
  "duplicatePrices =
     [mkPrice 1 1 (5095 / 100) 1704067200000,
      mkPrice 2 1 (504 / 10) 1704067200000]"

text \<open>
  The processing facility of the test data with one storage row of 10 pallets of
  product 1, and order rows of product 1 in two open orders and a collected one.
\<close>

definition akkukasittely :: Location where
  "akkukasittely =
     (mkLocation 4 (''Akkuk'' @ [CHR 0xC3, CHR 0xA4] @ ''sittely'') facilityType)
       \<lparr>loc_address := ''Address 3'', loc_postCode := ''85500'', loc_city := ''Nivala''\<rparr>"

definition mkOrder :: "int \<Rightarrow> int \<Rightarrow> string \<Rightarrow> Order" where
  "mkOrder i lid status =
     \<lparr>ord_orderId = i, ord_locationId = lid, ord_status = status, ord_createdAt = 1707782400000\<rparr>"

definition mkOrderRow :: "int \<Rightarrow> int \<Rightarrow> int \<Rightarrow> OrderRow" where
  "mkOrderRow oid pid amount =
     \<lparr>orow_orderId = oid, orow_productId = pid, orow_palletAmount = amount\<rparr>"

definition facilityData :: db where
  "facilityData =
     \<lparr>locations = [mkLocation 1 ''Kuljetus Korhonen'' ''Kuljetusliike'', akkukasittely],
      storages = [mkStorage 1 4 1 10 1703781219175],
      products = [paristolaatikko],
      locationPrices = [],
      orders = [mkOrder 1 1 ''Avattu'', mkOrder 2 2 ''Avattu'', mkOrder 3 2 ''Noudettu''],
      orderRows = [mkOrderRow 1 1 8, mkOrderRow 2 1 10, mkOrderRow 3 1 6]\<rparr>"

text \<open>The same with two storage rows of product 1 created at the same instant.\<close>

definition tiedData :: db where
  "tiedData = facilityData\<lparr>storages :=
     [mkStorage 1 4 1 20 1703781219175, mkStorage 2 4 1 30 1703781219175]\<rparr>"

text \<open>
  Inputs of the pallet mutations for product 1 at location 1, whose latest storage row
  in the test data holds 70 pallets: collecting with the inputs 60 and 2147483600,
  adding 5.
\<close>

definition collectSixty :: StorageInput where
  "collectSixty = \<lparr>in_locationId = 1, storageRows = [\<lparr>row_productId = 1, row_palletAmount = 60\<rparr>]\<rparr>"

definition collectLarge :: StorageInput where
  "collectLarge =
     \<lparr>in_locationId = 1, storageRows = [\<lparr>row_productId = 1, row_palletAmount = 2147483600\<rparr>]\<rparr>"

definition addFive :: StorageInput where
  "addFive = \<lparr>in_locationId = 1, storageRows = [\<lparr>row_productId = 1, row_palletAmount = 5\<rparr>]\<rparr>"





text \<open>
  Rows as \<open>insertTestData\<close> creates them: the first two carriers, the first two
  products, and product 2 at locations 1 and 2 with one timestamp, 2 and 3 pallets,
  with a later row of location 1.
\<close>

definition litiumlaatikko :: Product where
  "litiumlaatikko =
     \<lparr>prod_productId = 2, prod_productName = ''Litiumlaatikko'', prod_productAmount = 5\<rparr>"

definition sharedStampData :: db where
  "sharedStampData =
     \<lparr>locations =
        [mkLocation 1 ''Kuljetus Korhonen'' ''Kuljetusliike'',
         (mkLocation 2 ''Lahtisen Logistiikka'' ''Kuljetusliike'')
           \<lparr>loc_address := ''Address 2'', loc_postCode := ''33340'', loc_city := ''Tampere''\<rparr>],
      storages =
        [mkStorage 1 1 2 2 1703781219175,
         mkStorage 2 1 2 3 1704120942100,
         mkStorage 3 2 2 3 1703781219175],
      products = [paristolaatikko, litiumlaatikko],
      locationPrices = [],
      orders = [],
      orderRows = []\<rparr>"

text \<open>Collecting 1 pallet of product 2 at location 2.\<close>

definition collectOne :: StorageInput where
  "collectOne = \<lparr>in_locationId = 2, storageRows = [\<lparr>row_productId = 2, row_palletAmount = 1\<rparr>]\<rparr>"

section \<open>Properties of the report\<close>

subsection \<open>The locations of a report\<close>

lemma nextDay_utc: "nextDay utc d = d + msPerDay"
  by (simp add: nextDay.rep_eq utc.rep_eq)


lemma ids_pushPrice: "map loc_locationId (pushPrice lp ls) = map loc_locationId ls"
  by (induction ls) simp_all

lemma ids_addPrices: "map loc_locationId (addPrices lps ls) = map loc_locationId ls"
  unfolding addPrices_def
  by (induction lps arbitrary: ls) (simp_all add: ids_pushPrice)

lemma ids_findLocations:
  "map loc_locationId (findLocations s ids) =
     map loc_locationId (filter (\<lambda>l. loc_locationId l \<in> set ids) (locations s))"
  by (simp add: findLocations_def comp_def)

lemma reportLocations_resolves:
  assumes "locationIds inp \<noteq> []"
  shows "\<exists>locs. reportLocations s inp = Inr locs \<and>
     map loc_locationId locs =
       map loc_locationId (filter (\<lambda>l. loc_locationId l \<in> set (locationIds inp)) (locations s))"
  using assms
  by (simp add: reportLocations_def priceQuery_def Let_def ids_addPrices ids_findLocations)

lemma report_Inr_iff:
  "report z s inp = Inr r \<longleftrightarrow>
     (\<exists>locs. reportLocations s inp = Inr locs \<and>
        r = \<lparr>locationReports = map (locationReport z s (startDate inp) (endDate inp)) locs\<rparr>)"
  by (auto simp: report_def split: sum.splits)

subsection \<open>The loop over the days\<close>

lemma foldl_plus_sum_list:
  "foldl (\<lambda>total r. total + f r) a xs = (a::int) + sum_list (map f xs)"
  by (induction xs arbitrary: a) auto

lemma dayCount_step:
  assumes "d \<le> e"
  shows "nat ((e - d) div msPerDay + 1) = Suc (nat ((e - (d + msPerDay)) div msPerDay + 1))"
proof -
  have D: "0 < msPerDay" by (simp add: msPerDay_def)
  have "e - d = (e - (d + msPerDay)) + msPerDay" by simp
  then have "(e - d) div msPerDay = ((e - (d + msPerDay)) + msPerDay) div msPerDay" by simp
  also have "\<dots> = (e - (d + msPerDay)) div msPerDay + 1"
    using D by (intro div_add_self2) simp
  finally have eq: "(e - d) div msPerDay = (e - (d + msPerDay)) div msPerDay + 1" .
  have "0 \<le> (e - d) div msPerDay" using assms D by (simp add: pos_imp_zdiv_nonneg_iff)
  with eq show ?thesis by simp
qed

lemma upt_0_Suc_shift: "[0..<Suc n] = 0 # map Suc [0..<n]"
  by (simp add: upt_conv_Cons map_Suc_upt del: upt_Suc)

lemma dayCount_none:
  assumes "\<not> d \<le> e"
  shows "nat ((e - d) div msPerDay + 1) = 0"
proof -
  have D: "0 < msPerDay" by (simp add: msPerDay_def)
  have "(e - d) div msPerDay < 0" using assms D by (simp add: div_neg_pos_less0)
  then show ?thesis by simp
qed

text \<open>
  Where every step taken between \<open>d\<close> and \<open>e\<close> is one day of milliseconds, the loop
  visits \<open>d\<close>, \<open>d\<close> plus one day, and so on up to \<open>e\<close>.
\<close>

lemma dailyLoop_closed:
  assumes "\<forall>x. d \<le> x \<and> x \<le> e \<longrightarrow> nextDay z x = x + msPerDay"
  shows "dailyLoop z d e loc ps acc =
     acc @ map (\<lambda>i. dailyReport loc ps (d + int i * msPerDay)) [0..<nat ((e - d) div msPerDay + 1)]"
  using assms
proof (induction z d e loc ps acc rule: dailyLoop.induct)
  case (1 z d e loc ps acc)
  show ?case
  proof (cases "d \<le> e")
    case True
    have step: "nextDay z d = d + msPerDay" using "1.prems" True by simp
    have later: "\<forall>x. nextDay z d \<le> x \<and> x \<le> e \<longrightarrow> nextDay z x = x + msPerDay"
      using "1.prems" by (simp add: step msPerDay_def)
    have "dailyLoop z d e loc ps acc =
        dailyLoop z (d + msPerDay) e loc ps (acc @ [dailyReport loc ps d])"
      using True step by (subst dailyLoop.simps) simp
    also have "\<dots> = (acc @ [dailyReport loc ps d]) @
        map (\<lambda>i. dailyReport loc ps (d + msPerDay + int i * msPerDay))
          [0..<nat ((e - (d + msPerDay)) div msPerDay + 1)]"
      using "1.IH" [OF True later] by (simp add: step)
    also have "\<dots> = acc @ map (\<lambda>i. dailyReport loc ps (d + int i * msPerDay))
          [0..<Suc (nat ((e - (d + msPerDay)) div msPerDay + 1))]"
      by (simp only: upt_0_Suc_shift) (simp add: comp_def algebra_simps)
    finally show ?thesis using dayCount_step [OF True] by simp
  next
    case False
    then show ?thesis using dayCount_none [OF False] by (subst dailyLoop.simps) simp
  qed
qed

lemma createDailyReports_closed:
  assumes "\<forall>x. sd \<le> x \<and> x \<le> ed \<longrightarrow> nextDay z x = x + msPerDay"
  shows "createDailyReports z s sd ed loc =
     map (\<lambda>i. dailyReport loc (products s) (sd + int i * msPerDay))
       [0..<nat ((ed - sd) div msPerDay + 1)]"
  using dailyLoop_closed [OF assms] by (simp add: createDailyReports_def)


lemma dailyReports_locationReport [simp]:
  "dailyReports (locationReport z s sd ed loc) = createDailyReports z s sd ed loc"
  by (simp add: locationReport_def Let_def)

lemma totalCost_locationReport:
  "totalCost (locationReport z s sd ed loc) =
     sum_list (map totalDailyCost (createDailyReports z s sd ed loc))"
  by (simp add: locationReport_def Let_def foldl_plus_sum_list)

lemma date_dailyReport [simp]: "date (dailyReport loc ps d) = d"
  by (simp add: dailyReport_def Let_def)










lemma dayCount_january: "nat ((endDate january - startDate january) div msPerDay + 1) = 31"
  by (simp add: january_def msPerDay_def)

lemma reportLocations_january:
  "\<exists>loc. reportLocations testData january = Inr [loc]"
  by (simp add: reportLocations_def findLocations_def addPrices_def priceQuery_def
      validOnStart_def changesInRange_def sqlMax_def Let_def
      january_def testData_def mkLocation_def mkStorage_def mkPrice_def paristolaatikko_def)

subsection \<open>One entry per calendar day\<close>




subsection \<open>The total cost\<close>

text \<open>
  Claim C6. The \<open>totalCost\<close> of every location report of a report that the resolver
  returns is the sum of \<open>totalDailyCost\<close> over its daily reports; and the resolver
  returns a report for every non-empty location set.
\<close>

theorem report_totalCost_is_sum:
  "(\<forall>r. report z s inp = Inr r \<longrightarrow>
      (\<forall>lr \<in> set (locationReports r).
         totalCost lr = (\<Sum>dr\<leftarrow>dailyReports lr. totalDailyCost dr)))
   \<and> (locationIds inp \<noteq> [] \<longrightarrow> (\<exists>r. report z s inp = Inr r))"
proof (intro conjI allI impI)
  fix r assume "report z s inp = Inr r"
  then show "\<forall>lr \<in> set (locationReports r).
         totalCost lr = (\<Sum>dr\<leftarrow>dailyReports lr. totalDailyCost dr)"
    by (auto simp: report_Inr_iff totalCost_locationReport)
next
  assume "locationIds inp \<noteq> []"
  from reportLocations_resolves [OF this] show "\<exists>r. report z s inp = Inr r"
    by (auto simp: report_Inr_iff)
qed

theorem report_totalCost_is_sum_witness:
  "locationIds january \<noteq> [] \<and>
   (\<exists>r. report utc testData january = Inr r \<and>
     (\<forall>lr \<in> set (locationReports r).
        totalCost lr = (\<Sum>dr\<leftarrow>dailyReports lr. totalDailyCost dr)) \<and>
     map totalCost (locationReports r) = [775])"
proof -
  have h: "locationIds january \<noteq> []" by (simp add: january_def)
  obtain r where r: "report utc testData january = Inr r"
    and s: "\<forall>lr \<in> set (locationReports r).
        totalCost lr = (\<Sum>dr\<leftarrow>dailyReports lr. totalDailyCost dr)"
    using report_totalCost_is_sum [of utc testData january] h by blast
  have hz: "\<forall>d. startDate january \<le> d \<and> d \<le> endDate january \<longrightarrow> nextDay utc d = d + msPerDay"
    by (simp add: nextDay_utc)
  have "totalDailyCost (dailyReport loc (products testData) d) = 25" for loc d
    by (simp add: dailyReport_def createProductReports_def testData_def mkLocation_def
        mkStorage_def mkPrice_def paristolaatikko_def)
  then have "totalCost (locationReport utc testData (startDate january) (endDate january) loc)
      = 775" for loc
    by (simp add: totalCost_locationReport createDailyReports_closed [OF hz] dayCount_january
        comp_def sum_list_triv)
  then have "map totalCost (locationReports r) = [775]"
    using r reportLocations_january by (auto simp: report_Inr_iff)
  with h r s show ?thesis by (intro conjI exI [of _ r]) simp_all
qed

subsection \<open>A range that ends before it starts\<close>




subsection \<open>The product reports\<close>

text \<open>
  Claim C7 asks for the quantity of the latest snapshot at or before each day, and for
  the cost at the price of the day. \<open>createProductReports\<close> reads neither the storage
  rows nor the prices: in the January report of the test data, where the snapshots of
  product 1 are 20, 60 and 70 pallets, every day reports 5 pallets at a cost of 25.
\<close>

theorem createProductReports_placeholder_january:
  "map (\<lambda>lr. map (\<lambda>dr. map (\<lambda>pr. (prod_productId (product pr), palletAmount pr, cost pr))
                       (productReports dr)) (dailyReports lr))
     (locationReports (projr (report utc testData january)))
   = [replicate 31 [(1, 5, 25)]]"
proof -
  have hz: "\<forall>d. startDate january \<le> d \<and> d \<le> endDate january \<longrightarrow> nextDay utc d = d + msPerDay"
    by (simp add: nextDay_utc)
  have "map (\<lambda>pr. (prod_productId (product pr), palletAmount pr, cost pr))
        (productReports (dailyReport loc (products testData) d)) = [(1, 5, 25)]" for loc d
    by (simp add: dailyReport_def createProductReports_def testData_def mkLocation_def
        mkStorage_def mkPrice_def paristolaatikko_def)
  then show ?thesis
    using reportLocations_january
    by (auto simp: report_def createDailyReports_closed [OF hz] dayCount_january comp_def
        map_replicate_const)
qed

section \<open>Properties of the price query\<close>

lemma foldl_max_Max: "foldl max (x::int) ys = Max (set (x # ys))"
proof -
  have "(\<lambda>y s. max s y) = (max :: int \<Rightarrow> int \<Rightarrow> int)"
    by (auto simp: fun_eq_iff)
  then show ?thesis by (simp only: foldl_conv_fold Max.set_eq_fold)
qed

lemma sqlMax_Some_iff: "sqlMax xs = Some m \<longleftrightarrow> m \<in> set xs \<and> (\<forall>x \<in> set xs. x \<le> m)"
proof (cases xs)
  case Nil
  then show ?thesis by (simp add: sqlMax_def)
next
  case (Cons y ys)
  have "Max (set (y # ys)) = m \<longleftrightarrow> m \<in> set (y # ys) \<and> (\<forall>x \<in> set (y # ys). x \<le> m)"
    by (rule Max_eq_iff) auto
  then show ?thesis using Cons by (simp add: sqlMax_def foldl_max_Max eq_commute)
qed

lemma sqlMax_None_iff: "sqlMax xs = None \<longleftrightarrow> xs = []"
  by (simp add: sqlMax_def split: list.splits)

lemma set_validOnStart:
  "set (validOnStart tbl ids sd) =
     {lp \<in> set tbl. lp_locationId lp \<in> set ids \<and> lp_validFrom lp \<le> sd \<and>
        (\<forall>lp2 \<in> set tbl. lp_locationId lp2 = lp_locationId lp \<and> lp_validFrom lp2 \<le> sd
           \<longrightarrow> lp_validFrom lp2 \<le> lp_validFrom lp)}"
  unfolding validOnStart_def
  by (auto simp: eq_commute [of "Some _"] sqlMax_Some_iff)

lemma set_changesInRange:
  "set (changesInRange tbl ids sd ed) =
     {lp \<in> set tbl. lp_locationId lp \<in> set ids \<and> sd \<le> lp_validFrom lp \<and> lp_validFrom lp \<le> ed}"
  by (auto simp: changesInRange_def)

lemma validOnStart_exists:
  assumes "lp \<in> set tbl" "lp_locationId lp \<in> set ids" "lp_validFrom lp \<le> sd"
  shows "\<exists>lp' \<in> set (validOnStart tbl ids sd).
           lp_locationId lp' = lp_locationId lp \<and> lp_validFrom lp \<le> lp_validFrom lp'"
proof -
  let ?vs = "map lp_validFrom
     (filter (\<lambda>lp2. lp_validFrom lp2 \<le> sd \<and> lp_locationId lp2 = lp_locationId lp) tbl)"
  have ne: "?vs \<noteq> []" using assms by (auto simp: filter_empty_conv)
  then obtain m where m: "sqlMax ?vs = Some m"
    using sqlMax_None_iff [of ?vs] by (cases "sqlMax ?vs") auto
  then have "m \<in> set ?vs" and mx: "\<forall>x \<in> set ?vs. x \<le> m"
    using sqlMax_Some_iff [of ?vs m] by blast+
  then obtain lp' where lp': "lp' \<in> set tbl" "lp_validFrom lp' \<le> sd"
    "lp_locationId lp' = lp_locationId lp" "lp_validFrom lp' = m"
    by auto
  have "lp_validFrom lp \<in> set ?vs" using assms by auto
  with mx have "lp_validFrom lp \<le> m" by blast
  moreover have "lp' \<in> set (validOnStart tbl ids sd)"
    using lp' m assms(2) by (simp add: validOnStart_def)
  ultimately show ?thesis using lp' by auto
qed

lemma validOnStart_single:
  assumes "distinct (map (\<lambda>lp. (lp_locationId lp, lp_validFrom lp)) tbl)"
    and "a \<in> set (validOnStart tbl ids sd)" "b \<in> set (validOnStart tbl ids sd)"
    and "lp_locationId a = lp_locationId b"
  shows "a = b"
proof -
  have "lp_validFrom a = lp_validFrom b"
    using assms(2-4) unfolding set_validOnStart by (auto intro: antisym)
  moreover have "inj_on (\<lambda>lp. (lp_locationId lp, lp_validFrom lp)) (set tbl)"
    using assms(1) by (simp add: distinct_map)
  moreover have "a \<in> set tbl" "b \<in> set tbl" using assms(2,3) by (auto simp: validOnStart_def)
  ultimately show ?thesis using assms(4) by (auto dest: inj_onD)
qed

text \<open>
  Claim C1 says that the first branch contributes, for each location, the single price
  version with the greatest \<open>validFrom\<close> not after \<open>startDate\<close>. The branch compares
  \<open>validFrom\<close> with the maximum, so it returns every version that attains it: with two
  prices of location 1 valid from 1 January, the query for 15 to 31 January returns both.
\<close>

theorem priceQuery_duplicate_validFrom_counterexample:
  "priceQuery duplicatePrices [1] 1705276800000 1706659200000 =
     Inr [mkPrice 1 1 (5095 / 100) 1704067200000, mkPrice 2 1 (504 / 10) 1704067200000]"
  by (simp add: priceQuery_def validOnStart_def changesInRange_def sqlMax_def
      duplicatePrices_def mkPrice_def)

text \<open>
  Claim C1, as amended. For every price table, non-empty location set and date range,
  the price query returns rows, and they are exactly (a) the versions of the requested
  locations whose \<open>validFrom\<close> is the greatest \<open>validFrom\<close> not after \<open>startDate\<close> of
  their location, together with (b) the versions of those locations whose \<open>validFrom\<close>
  lies in \<open>[startDate, endDate]\<close>, each row once. So a location with a version at or
  before \<open>startDate\<close> has its latest such version in the result, also when that version
  lies before the range. Where no two versions of a location share a \<open>validFrom\<close>, the
  result holds at most one version not after \<open>startDate\<close> per location.
\<close>

theorem priceQuery_union:
  assumes "ids \<noteq> []"
  shows "\<exists>rows. priceQuery tbl ids sd ed = Inr rows
   \<and> set rows =
     {lp \<in> set tbl. lp_locationId lp \<in> set ids \<and> lp_validFrom lp \<le> sd \<and>
        (\<forall>lp2 \<in> set tbl. lp_locationId lp2 = lp_locationId lp \<and> lp_validFrom lp2 \<le> sd
           \<longrightarrow> lp_validFrom lp2 \<le> lp_validFrom lp)}
     \<union> {lp \<in> set tbl. lp_locationId lp \<in> set ids \<and> sd \<le> lp_validFrom lp \<and> lp_validFrom lp \<le> ed}
   \<and> distinct rows
   \<and> (\<forall>lp \<in> set tbl. lp_locationId lp \<in> set ids \<and> lp_validFrom lp \<le> sd \<longrightarrow>
         (\<exists>lp' \<in> set rows.
            lp_locationId lp' = lp_locationId lp \<and> lp_validFrom lp \<le> lp_validFrom lp'
            \<and> lp_validFrom lp' \<le> sd))
   \<and> (distinct (map (\<lambda>lp. (lp_locationId lp, lp_validFrom lp)) tbl) \<longrightarrow>
         (\<forall>a \<in> set rows. \<forall>b \<in> set rows.
            lp_validFrom a \<le> sd \<and> lp_validFrom b \<le> sd \<and> lp_locationId a = lp_locationId b
            \<longrightarrow> a = b))"
proof -
  let ?rows = "remdups (validOnStart tbl ids sd @ changesInRange tbl ids sd ed)"
  have r: "priceQuery tbl ids sd ed = Inr ?rows"
    using assms by (simp add: priceQuery_def)
  have s: "set ?rows =
     {lp \<in> set tbl. lp_locationId lp \<in> set ids \<and> lp_validFrom lp \<le> sd \<and>
        (\<forall>lp2 \<in> set tbl. lp_locationId lp2 = lp_locationId lp \<and> lp_validFrom lp2 \<le> sd
           \<longrightarrow> lp_validFrom lp2 \<le> lp_validFrom lp)}
     \<union> {lp \<in> set tbl. lp_locationId lp \<in> set ids \<and> sd \<le> lp_validFrom lp \<and> lp_validFrom lp \<le> ed}"
    by (simp only: set_remdups set_append set_validOnStart set_changesInRange)
  have d: "distinct ?rows" by simp
  have e: "\<forall>lp \<in> set tbl. lp_locationId lp \<in> set ids \<and> lp_validFrom lp \<le> sd \<longrightarrow>
         (\<exists>lp' \<in> set ?rows.
            lp_locationId lp' = lp_locationId lp \<and> lp_validFrom lp \<le> lp_validFrom lp'
            \<and> lp_validFrom lp' \<le> sd)"
  proof (intro ballI impI)
    fix lp assume "lp \<in> set tbl" "lp_locationId lp \<in> set ids \<and> lp_validFrom lp \<le> sd"
    then obtain lp' where "lp' \<in> set (validOnStart tbl ids sd)"
      "lp_locationId lp' = lp_locationId lp" "lp_validFrom lp \<le> lp_validFrom lp'"
      using validOnStart_exists [of lp tbl ids sd] by blast
    moreover from this(1) have "lp_validFrom lp' \<le> sd" by (simp add: set_validOnStart)
    ultimately show "\<exists>lp' \<in> set ?rows.
            lp_locationId lp' = lp_locationId lp \<and> lp_validFrom lp \<le> lp_validFrom lp'
            \<and> lp_validFrom lp' \<le> sd"
      by auto
  qed
  have u: "distinct (map (\<lambda>lp. (lp_locationId lp, lp_validFrom lp)) tbl) \<longrightarrow>
         (\<forall>a \<in> set ?rows. \<forall>b \<in> set ?rows.
            lp_validFrom a \<le> sd \<and> lp_validFrom b \<le> sd \<and> lp_locationId a = lp_locationId b
            \<longrightarrow> a = b)"
  proof (intro impI ballI)
    fix a b
    assume dk: "distinct (map (\<lambda>lp. (lp_locationId lp, lp_validFrom lp)) tbl)"
      and a: "a \<in> set ?rows" and b: "b \<in> set ?rows"
      and ab: "lp_validFrom a \<le> sd \<and> lp_validFrom b \<le> sd \<and> lp_locationId a = lp_locationId b"
    have "x \<in> set (validOnStart tbl ids sd)"
      if "x \<in> set ?rows" "lp_validFrom x \<le> sd" for x
      using that by (auto simp: set_changesInRange set_validOnStart)
    then have "a \<in> set (validOnStart tbl ids sd)" "b \<in> set (validOnStart tbl ids sd)"
      using a b ab by blast+
    then show "a = b" using validOnStart_single [OF dk] ab by blast
  qed
  from r s d e u show ?thesis by (intro exI [of _ ?rows] conjI)
qed

theorem priceQuery_union_witness:
  "[1] \<noteq> ([] :: int list)
   \<and> distinct (map (\<lambda>lp. (lp_locationId lp, lp_validFrom lp)) (locationPrices testData))
   \<and> priceQuery (locationPrices testData) [1] 1704844800000 1706659200000 =
       Inr [mkPrice 1 1 (5095 / 100) 1704067200000, mkPrice 2 1 (504 / 10) 1705276800000]
   \<and> (\<exists>rows. priceQuery (locationPrices testData) [1] 1704844800000 1706659200000 = Inr rows
        \<and> distinct rows
        \<and> (\<forall>a \<in> set rows. \<forall>b \<in> set rows.
              lp_validFrom a \<le> 1704844800000 \<and> lp_validFrom b \<le> 1704844800000
              \<and> lp_locationId a = lp_locationId b \<longrightarrow> a = b))"
proof -
  have h: "[1] \<noteq> ([] :: int list)" by simp
  have b: "distinct (map (\<lambda>lp. (lp_locationId lp, lp_validFrom lp)) (locationPrices testData))"
    by (simp add: testData_def mkLocation_def mkStorage_def mkPrice_def paristolaatikko_def)
  have c: "priceQuery (locationPrices testData) [1] 1704844800000 1706659200000 =
       Inr [mkPrice 1 1 (5095 / 100) 1704067200000, mkPrice 2 1 (504 / 10) 1705276800000]"
    by (simp add: priceQuery_def validOnStart_def changesInRange_def sqlMax_def
      testData_def mkLocation_def mkStorage_def mkPrice_def paristolaatikko_def)
  from priceQuery_union [OF h, of "locationPrices testData" 1704844800000 1706659200000] b
  have a: "\<exists>rows. priceQuery (locationPrices testData) [1] 1704844800000 1706659200000 = Inr rows
        \<and> distinct rows
        \<and> (\<forall>a \<in> set rows. \<forall>b \<in> set rows.
              lp_validFrom a \<le> 1704844800000 \<and> lp_validFrom b \<le> 1704844800000
              \<and> lp_locationId a = lp_locationId b \<longrightarrow> a = b)"
    by blast
  from h b c a show ?thesis by (intro conjI)
qed

section \<open>Properties of the storage queries\<close>

lemma maxCreatedAtByProduct_iff:
  "(p, Some t) \<in> set (maxCreatedAtByProduct rows) \<longleftrightarrow>
     (\<exists>st \<in> set rows. st_productId st = p \<and> st_createdAt st = t) \<and>
     (\<forall>st \<in> set rows. st_productId st = p \<longrightarrow> st_createdAt st \<le> t)"
  unfolding maxCreatedAtByProduct_def
  by (auto simp: eq_commute [of "Some _"] sqlMax_Some_iff)

lemma latest_in_group_iff:
  assumes "st \<in> set rows"
  shows "(st_productId st, Some (st_createdAt st)) \<in> set (maxCreatedAtByProduct rows) \<longleftrightarrow>
     (\<forall>st' \<in> set rows. st_productId st' = st_productId st \<longrightarrow> st_createdAt st' \<le> st_createdAt st)"
  using assms by (auto simp: maxCreatedAtByProduct_iff)

lemma filter_latest_cong:
  "filter (\<lambda>st. (st_productId st, Some (st_createdAt st)) \<in> set (maxCreatedAtByProduct rows)) rows
   = filter (\<lambda>st. \<forall>st' \<in> set rows. st_productId st' = st_productId st
                    \<longrightarrow> st_createdAt st' \<le> st_createdAt st) rows"
  by (rule filter_cong) (simp_all add: latest_in_group_iff)

lemma mset_latestFacilityStorages:
  "mset (latestFacilityStorages s) =
     filter_mset (\<lambda>st. \<forall>st' \<in> set (facilityStorages s). st_productId st' = st_productId st
                    \<longrightarrow> st_createdAt st' \<le> st_createdAt st) (mset (facilityStorages s))"
  by (simp add: latestFacilityStorages_def filter_latest_cong)

lemma sorted_latestFacilityStorages: "sorted (map st_productId (latestFacilityStorages s))"
  by (simp add: latestFacilityStorages_def)

lemma reservedAmount_sum:
  "reservedAmount rows p = sum_list (map orow_palletAmount (filter (\<lambda>row. orow_productId row = p) rows))"
  by (simp add: reservedAmount_def foldl_plus_sum_list)

lemma group_has_latest:
  assumes "st \<in> set rows"
  shows "\<exists>st' \<in> set rows. st_productId st' = st_productId st \<and>
           (\<forall>x \<in> set rows. st_productId x = st_productId st' \<longrightarrow> st_createdAt x \<le> st_createdAt st')"
proof -
  let ?ts = "map st_createdAt (filter (\<lambda>x. st_productId x = st_productId st) rows)"
  have "?ts \<noteq> []" using assms by (auto simp: filter_empty_conv)
  then obtain m where m: "sqlMax ?ts = Some m"
    using sqlMax_None_iff [of ?ts] by (cases "sqlMax ?ts") auto
  then have "m \<in> set ?ts" and mx: "\<forall>x \<in> set ?ts. x \<le> m"
    using sqlMax_Some_iff [of ?ts m] by blast+
  then obtain st' where "st' \<in> set rows" "st_productId st' = st_productId st" "st_createdAt st' = m"
    by auto
  with mx show ?thesis by (intro bexI [of _ st']) auto
qed

subsection \<open>Available storages\<close>

text \<open>
  Claim C2 says that \<open>availableStorages\<close> returns one record per product held at a
  processing facility. The query keeps every facility row whose \<open>createdAt\<close> equals
  the greatest one of its product: with two rows of product 1 created at the same
  instant (20 and 30 pallets) and 18 pallets in open orders, it returns two records
  for the product.
\<close>

theorem availableStorages_tied_counterexample:
  "availableStorages None tiedData =
     Inr [mkStorage 1 4 1 2 1703781219175, mkStorage 2 4 1 12 1703781219175]"
  by (simp add: availableStorages_def latestFacilityStorages_def facilityStorages_def
      maxCreatedAtByProduct_def sqlMax_def openOrderRows_def reservedAmount_def tiedData_def
      facilityData_def akkukasittely_def mkOrder_def mkOrderRow_def mkLocation_def mkStorage_def
      paristolaatikko_def facilityType_def)

text \<open>
  Claim C2, as amended. For a caller that passes the role check, \<open>availableStorages\<close>
  resolves, never with an error. Its records are, ordered by product, exactly the
  storage rows at processing facilities whose \<open>createdAt\<close> is the greatest among the
  facility rows of their product, one record for each such row (so one record per
  product when a single row attains the greatest \<open>createdAt\<close>), and every product
  held at a facility has a record. The \<open>palletAmount\<close> of a record is that of its row
  minus the sum of \<open>palletAmount\<close> over the rows of the product in orders of status
  \<open>Avattu\<close>, whatever its sign.
\<close>

theorem availableStorages_latest_minus_reserved:
  "\<exists>rs. availableStorages None s = Inr rs
     \<and> mset rs =
         {# st\<lparr>st_palletAmount := st_palletAmount st -
                 sum_list (map orow_palletAmount
                   (filter (\<lambda>row. orow_productId row = st_productId st) (openOrderRows s)))\<rparr>.
            st \<in># filter_mset
                     (\<lambda>st. \<forall>st' \<in> set (facilityStorages s). st_productId st' = st_productId st
                              \<longrightarrow> st_createdAt st' \<le> st_createdAt st)
                     (mset (facilityStorages s)) #}
     \<and> sorted (map st_productId rs)
     \<and> (\<forall>st \<in> set (facilityStorages s). \<exists>r \<in> set rs. st_productId r = st_productId st)"
proof -
  let ?adj = "\<lambda>st. st\<lparr>st_palletAmount := st_palletAmount st -
                 sum_list (map orow_palletAmount
                   (filter (\<lambda>row. orow_productId row = st_productId st) (openOrderRows s)))\<rparr>"
  let ?rs = "map ?adj (latestFacilityStorages s)"
  have r: "availableStorages None s = Inr ?rs"
    by (simp add: availableStorages_def reservedAmount_sum)
  have m: "mset ?rs = image_mset ?adj (filter_mset
                     (\<lambda>st. \<forall>st' \<in> set (facilityStorages s). st_productId st' = st_productId st
                              \<longrightarrow> st_createdAt st' \<le> st_createdAt st)
                     (mset (facilityStorages s)))"
    by (simp only: mset_map mset_latestFacilityStorages)
  have so: "sorted (map st_productId ?rs)"
    using sorted_latestFacilityStorages [of s] by (simp add: comp_def)
  have ex: "\<forall>st \<in> set (facilityStorages s). \<exists>r \<in> set ?rs. st_productId r = st_productId st"
  proof
    fix st assume "st \<in> set (facilityStorages s)"
    from group_has_latest [OF this] obtain st' where st': "st' \<in> set (facilityStorages s)"
      "st_productId st' = st_productId st"
      "\<forall>x \<in> set (facilityStorages s). st_productId x = st_productId st'
          \<longrightarrow> st_createdAt x \<le> st_createdAt st'"
      by blast
    then have "st' \<in># mset (latestFacilityStorages s)"
      unfolding mset_latestFacilityStorages by simp
    then have "?adj st' \<in> set ?rs" by simp
    moreover have "st_productId (?adj st') = st_productId st" using st'(2) by simp
    ultimately show "\<exists>r \<in> set ?rs. st_productId r = st_productId st" by blast
  qed
  from r m so ex show ?thesis by blast
qed

theorem availableStorages_latest_minus_reserved_witness:
  "(\<exists>rs. availableStorages None facilityData = Inr rs
     \<and> sorted (map st_productId rs)
     \<and> (\<forall>st \<in> set (facilityStorages facilityData). \<exists>r \<in> set rs. st_productId r = st_productId st))
   \<and> availableStorages None facilityData = Inr [mkStorage 1 4 1 (- 8) 1703781219175]
   \<and> facilityStorages facilityData = [mkStorage 1 4 1 10 1703781219175]
   \<and> map orow_palletAmount (openOrderRows facilityData) = [8, 10]"
proof -
  have a: "\<exists>rs. availableStorages None facilityData = Inr rs
     \<and> sorted (map st_productId rs)
     \<and> (\<forall>st \<in> set (facilityStorages facilityData). \<exists>r \<in> set rs. st_productId r = st_productId st)"
    using availableStorages_latest_minus_reserved [of facilityData] by blast
  have b: "availableStorages None facilityData = Inr [mkStorage 1 4 1 (- 8) 1703781219175]"
    by (simp add: availableStorages_def latestFacilityStorages_def facilityStorages_def
        maxCreatedAtByProduct_def sqlMax_def openOrderRows_def reservedAmount_def
        facilityData_def akkukasittely_def mkOrder_def mkOrderRow_def mkLocation_def
        mkStorage_def paristolaatikko_def facilityType_def)
  have c: "facilityStorages facilityData = [mkStorage 1 4 1 10 1703781219175]"
    by (simp add: availableStorages_def latestFacilityStorages_def facilityStorages_def
        maxCreatedAtByProduct_def sqlMax_def openOrderRows_def reservedAmount_def
        facilityData_def akkukasittely_def mkOrder_def mkOrderRow_def mkLocation_def
        mkStorage_def paristolaatikko_def facilityType_def)
  have d: "map orow_palletAmount (openOrderRows facilityData) = [8, 10]"
    by (simp add: availableStorages_def latestFacilityStorages_def facilityStorages_def
        maxCreatedAtByProduct_def sqlMax_def openOrderRows_def reservedAmount_def
        facilityData_def akkukasittely_def mkOrder_def mkOrderRow_def mkLocation_def
        mkStorage_def paristolaatikko_def facilityType_def)
  from a b c d show ?thesis by (intro conjI)
qed

subsection \<open>The latest rows per product\<close>

lemma sort_key_first:
  assumes "sort_key f xs = y # ys"
  shows "y \<in> set xs \<and> (\<forall>x \<in> set xs. f y \<le> f x)"
proof -
  have "set (y # ys) = set xs" using assms set_sort [of f xs] by simp
  moreover have "sorted (map f (y # ys))" using assms sorted_sort_key [of f xs] by simp
  ultimately show ?thesis by auto
qed

lemma rowNumberOne_iff:
  "(p, l, t) \<in> set (rowNumberOne rows) \<longleftrightarrow>
     (\<exists>st \<in> set rows. st_productId st = p \<and> st_locationId st = l \<and> st_createdAt st = t) \<and>
     (\<forall>st \<in> set rows. st_productId st = p \<and> st_locationId st = l \<longrightarrow> st_createdAt st \<le> t)"
  (is "?L \<longleftrightarrow> ?R")
proof
  assume L: ?L
  let ?srt = "\<lambda>k. sort_key (\<lambda>st. - st_createdAt st)
               (filter (\<lambda>st. (st_productId st, st_locationId st) = k) rows)"
  from L obtain k where
    mem: "(p, l, t) \<in> set (case ?srt k of [] \<Rightarrow> []
            | r # _ \<Rightarrow> [(st_productId r, st_locationId r, st_createdAt r)])"
    unfolding rowNumberOne_def set_concat set_map by blast
  then obtain r rs where srt: "?srt k = r # rs"
    by (cases "?srt k") auto
  with mem have eq: "(p, l, t) = (st_productId r, st_locationId r, st_createdAt r)"
    by simp
  from sort_key_first [OF srt] have
    "r \<in> set rows" "(st_productId r, st_locationId r) = k"
    "\<forall>x \<in> set rows. (st_productId x, st_locationId x) = k \<longrightarrow> st_createdAt x \<le> st_createdAt r"
    by auto
  with eq show ?R by auto
next
  assume R: ?R
  then obtain st where st: "st \<in> set rows" "st_productId st = p" "st_locationId st = l"
    "st_createdAt st = t" by blast
  let ?part = "filter (\<lambda>st. (st_productId st, st_locationId st) = (p, l)) rows"
  have "st \<in> set ?part" using st by simp
  then have "sort_key (\<lambda>st. - st_createdAt st) ?part \<noteq> []"
    by (metis empty_iff list.set(1) set_sort)
  then obtain r rs where srt: "sort_key (\<lambda>st. - st_createdAt st) ?part = r # rs"
    by (cases "sort_key (\<lambda>st. - st_createdAt st) ?part") auto
  from sort_key_first [OF srt] have r: "r \<in> set rows" "st_productId r = p" "st_locationId r = l"
    "\<forall>x \<in> set ?part. st_createdAt x \<le> st_createdAt r" by auto
  have "st_createdAt r \<le> t" using R r by blast
  moreover have "t \<le> st_createdAt r" using r(4) \<open>st \<in> set ?part\<close> st(4) by blast
  ultimately have "st_createdAt r = t" by simp
  with srt r have "(p, l, t) \<in> set (case sort_key (\<lambda>st. - st_createdAt st) ?part of [] \<Rightarrow> []
            | r # _ \<Rightarrow> [(st_productId r, st_locationId r, st_createdAt r)])"
    by simp
  moreover have "(p, l) \<in> set (remdups (map (\<lambda>st. (st_productId st, st_locationId st)) rows))"
    using st by force
  ultimately show ?L
    unfolding rowNumberOne_def set_concat set_map by blast
qed

lemma joinedStorages_of_location:
  assumes "l \<in> set (locations s)"
  shows "st \<in> set (joinedStorages s) \<and> st_locationId st = loc_locationId l \<longleftrightarrow>
         st \<in> set (storages s) \<and> st_locationId st = loc_locationId l"
  using assms by (auto simp: joinedStorages_def list_ex_iff)

lemma set_latestStorages:
  assumes "l \<in> set (locations s)"
  shows "set (latestStorages s l) =
     {st \<in> set (storages s). st_locationId st = loc_locationId l \<and>
        (\<forall>st' \<in> set (storages s).
           st_locationId st' = loc_locationId l \<and> st_productId st' = st_productId st
           \<longrightarrow> st_createdAt st' \<le> st_createdAt st)}"
proof -
  have j: "\<And>x. x \<in> set (joinedStorages s) \<and> st_locationId x = loc_locationId l \<longleftrightarrow>
         x \<in> set (storages s) \<and> st_locationId x = loc_locationId l"
    using joinedStorages_of_location [OF assms] by blast
  show ?thesis
    unfolding latestStorages_def set_filter rowNumberOne_iff
    using j by (intro Collect_cong) blast
qed


lemma set_latestFacilityStorages:
  "set (latestFacilityStorages s) =
     {st \<in> set (facilityStorages s).
        \<forall>st' \<in> set (facilityStorages s). st_productId st' = st_productId st
           \<longrightarrow> st_createdAt st' \<le> st_createdAt st}"
  by (simp add: latestFacilityStorages_def filter_latest_cong)

lemma distinct_map_filter_key:
  assumes "distinct (map f xs)"
    and "\<And>a b. a \<in> set xs \<Longrightarrow> b \<in> set xs \<Longrightarrow> P a \<Longrightarrow> P b \<Longrightarrow> g a = g b \<Longrightarrow> f a = f b"
  shows "distinct (map g (filter P xs))"
proof -
  have d: "distinct xs" and inj: "inj_on f (set xs)"
    using assms(1) by (simp_all add: distinct_map)
  have "inj_on g (set (filter P xs))"
  proof (rule inj_onI)
    fix a b assume "a \<in> set (filter P xs)" "b \<in> set (filter P xs)" "g a = g b"
    then have "a \<in> set xs" "b \<in> set xs" "f a = f b" using assms(2) by auto
    then show "a = b" using inj by (auto dest: inj_onD)
  qed
  then show ?thesis using d by (simp add: distinct_map)
qed

lemma distinct_latestStorages:
  assumes "distinct (map (\<lambda>st. (st_locationId st, st_productId st, st_createdAt st)) (storages s))"
    and "l \<in> set (locations s)"
  shows "distinct (map st_productId (latestStorages s l))"
proof -
  have "set (latestStorages s l) = set (filter (\<lambda>st. st \<in> set (latestStorages s l)) (storages s))"
    by (auto simp: latestStorages_def)
  have "st_createdAt a = st_createdAt b"
    if "a \<in> set (latestStorages s l)" "b \<in> set (latestStorages s l)"
      "st_productId a = st_productId b" for a b
    using that unfolding set_latestStorages [OF assms(2)] by (auto intro: antisym)
  then have "distinct (map st_productId
      (filter (\<lambda>st. st_locationId st = loc_locationId l
                 \<and> (st_productId st, loc_locationId l, st_createdAt st)
                     \<in> set (rowNumberOne (joinedStorages s))) (storages s)))"
    by (intro distinct_map_filter_key [OF assms(1)]) (auto simp: latestStorages_def)
  then show ?thesis by (simp add: latestStorages_def)
qed

lemma distinct_latestFacilityStorages:
  assumes "distinct (map (\<lambda>st. (st_productId st, st_createdAt st)) (facilityStorages s))"
  shows "distinct (map st_productId (latestFacilityStorages s))"
proof -
  let ?P = "\<lambda>st. \<forall>st' \<in> set (facilityStorages s). st_productId st' = st_productId st
                    \<longrightarrow> st_createdAt st' \<le> st_createdAt st"
  have d: "distinct (map st_productId (filter ?P (facilityStorages s)))"
    by (rule distinct_map_filter_key [OF assms]) (auto intro: antisym)
  have "mset (map st_productId (latestFacilityStorages s))
      = mset (map st_productId (filter ?P (facilityStorages s)))"
    by (simp add: latestFacilityStorages_def filter_latest_cong)
  from mset_eq_imp_distinct_iff [OF this] d show ?thesis by simp
qed

lemma latestStorages_covers:
  assumes "l \<in> set (locations s)" "st \<in> set (storages s)" "st_locationId st = loc_locationId l"
  shows "\<exists>r \<in> set (latestStorages s l). st_productId r = st_productId st"
proof -
  let ?rows = "filter (\<lambda>x. st_locationId x = loc_locationId l) (storages s)"
  have "st \<in> set ?rows" using assms by simp
  from group_has_latest [OF this] obtain r where r: "r \<in> set ?rows"
    "st_productId r = st_productId st"
    "\<forall>x \<in> set ?rows. st_productId x = st_productId r \<longrightarrow> st_createdAt x \<le> st_createdAt r"
    by blast
  then have "r \<in> set (latestStorages s l)"
    unfolding set_latestStorages [OF assms(1)] by auto
  with r(2) show ?thesis by blast
qed

lemma locationsWithStorages_loads_latest:
  assumes "locationsWithStorages None now ids s = Inr ls" "l' \<in> set ls"
  shows "\<exists>l \<in> set (locations s). loc_locationId l \<in> set ids \<and> loc_storages l' = latestStorages s l"
  using assms by (fastforce simp: locationsWithStorages_def split: if_splits)

text \<open>
  Claim C8 says that the latest-snapshot-per-product query returns exactly one row per
  product also when snapshots share a timestamp, the one with the highest id. Both
  queries select by the columns \<open>productId\<close>, (\<open>locationId\<close>,) \<open>createdAt\<close> of the
  latest row, so they return every row that shares them: with two rows of product 1
  created at the same instant, both are returned.
\<close>

theorem latest_rows_tied_counterexample:
  "latestStorages tiedData akkukasittely =
     [mkStorage 1 4 1 20 1703781219175, mkStorage 2 4 1 30 1703781219175]
   \<and> latestFacilityStorages tiedData =
     [mkStorage 1 4 1 20 1703781219175, mkStorage 2 4 1 30 1703781219175]"
  by (simp add: latestStorages_def rowNumberOne_def joinedStorages_def
      latestFacilityStorages_def facilityStorages_def maxCreatedAtByProduct_def sqlMax_def
      tiedData_def facilityData_def akkukasittely_def mkOrder_def mkOrderRow_def mkLocation_def
      mkStorage_def paristolaatikko_def facilityType_def)

text \<open>
  Claim C8, as amended. The queries take no query time: they range over all rows. For
  every location of the store, the storage rows that \<open>locationsWithStorages\<close> loads
  into it are exactly its rows whose \<open>createdAt\<close> is the greatest among its rows of the
  same product; the rows of the first query of \<open>availableStorages\<close> are exactly the
  facility rows whose \<open>createdAt\<close> is the greatest among the facility rows of the same
  product. Every product with a row has at least one row in the result, and exactly
  one where no two rows of its group share a \<open>createdAt\<close>; rows that share the
  greatest \<open>createdAt\<close> are all returned, whatever their ids.
\<close>

theorem latest_rows_per_product:
  assumes "l \<in> set (locations s)"
  shows "set (latestStorages s l) =
           {st \<in> set (storages s). st_locationId st = loc_locationId l \<and>
              (\<forall>st' \<in> set (storages s).
                 st_locationId st' = loc_locationId l \<and> st_productId st' = st_productId st
                 \<longrightarrow> st_createdAt st' \<le> st_createdAt st)}
     \<and> (\<forall>st \<in> set (storages s). st_locationId st = loc_locationId l \<longrightarrow>
           (\<exists>r \<in> set (latestStorages s l). st_productId r = st_productId st))
     \<and> (distinct (map (\<lambda>st. (st_locationId st, st_productId st, st_createdAt st)) (storages s))
          \<longrightarrow> distinct (map st_productId (latestStorages s l)))
     \<and> set (latestFacilityStorages s) =
           {st \<in> set (facilityStorages s).
              \<forall>st' \<in> set (facilityStorages s). st_productId st' = st_productId st
                 \<longrightarrow> st_createdAt st' \<le> st_createdAt st}
     \<and> (\<forall>st \<in> set (facilityStorages s).
           \<exists>r \<in> set (latestFacilityStorages s). st_productId r = st_productId st)
     \<and> (distinct (map (\<lambda>st. (st_productId st, st_createdAt st)) (facilityStorages s))
          \<longrightarrow> distinct (map st_productId (latestFacilityStorages s)))"
proof (intro conjI)
  show "set (latestStorages s l) =
           {st \<in> set (storages s). st_locationId st = loc_locationId l \<and>
              (\<forall>st' \<in> set (storages s).
                 st_locationId st' = loc_locationId l \<and> st_productId st' = st_productId st
                 \<longrightarrow> st_createdAt st' \<le> st_createdAt st)}"
    by (rule set_latestStorages [OF assms])
  show "\<forall>st \<in> set (storages s). st_locationId st = loc_locationId l \<longrightarrow>
           (\<exists>r \<in> set (latestStorages s l). st_productId r = st_productId st)"
    using latestStorages_covers [OF assms] by blast
  show "distinct (map (\<lambda>st. (st_locationId st, st_productId st, st_createdAt st)) (storages s))
          \<longrightarrow> distinct (map st_productId (latestStorages s l))"
    using distinct_latestStorages [OF _ assms] by blast
  show "set (latestFacilityStorages s) =
           {st \<in> set (facilityStorages s).
              \<forall>st' \<in> set (facilityStorages s). st_productId st' = st_productId st
                 \<longrightarrow> st_createdAt st' \<le> st_createdAt st}"
    by (rule set_latestFacilityStorages)
  show "\<forall>st \<in> set (facilityStorages s).
           \<exists>r \<in> set (latestFacilityStorages s). st_productId r = st_productId st"
  proof
    fix st assume "st \<in> set (facilityStorages s)"
    from group_has_latest [OF this] show
      "\<exists>r \<in> set (latestFacilityStorages s). st_productId r = st_productId st"
      unfolding set_latestFacilityStorages by blast
  qed
  show "distinct (map (\<lambda>st. (st_productId st, st_createdAt st)) (facilityStorages s))
          \<longrightarrow> distinct (map st_productId (latestFacilityStorages s))"
    using distinct_latestFacilityStorages by blast
qed

theorem latest_rows_per_product_witness:
  "mkLocation 1 ''Kuljetus Korhonen'' ''Kuljetusliike'' \<in> set (locations testData)
   \<and> distinct (map (\<lambda>st. (st_locationId st, st_productId st, st_createdAt st)) (storages testData))
   \<and> distinct (map st_productId
        (latestStorages testData (mkLocation 1 ''Kuljetus Korhonen'' ''Kuljetusliike'')))
   \<and> latestStorages testData (mkLocation 1 ''Kuljetus Korhonen'' ''Kuljetusliike'')
       = [mkStorage 3 1 1 70 1706126515162]"
proof -
  have h: "mkLocation 1 ''Kuljetus Korhonen'' ''Kuljetusliike'' \<in> set (locations testData)"
    by (simp add: testData_def)
  have d: "distinct (map (\<lambda>st. (st_locationId st, st_productId st, st_createdAt st))
             (storages testData))"
    by (simp add: testData_def mkLocation_def mkStorage_def mkPrice_def paristolaatikko_def)
  have e: "latestStorages testData (mkLocation 1 ''Kuljetus Korhonen'' ''Kuljetusliike'')
       = [mkStorage 3 1 1 70 1706126515162]"
    by (simp add: latestStorages_def rowNumberOne_def joinedStorages_def testData_def
        mkLocation_def mkStorage_def mkPrice_def paristolaatikko_def)
  from latest_rows_per_product [OF h] d have
    "distinct (map st_productId
        (latestStorages testData (mkLocation 1 ''Kuljetus Korhonen'' ''Kuljetusliike'')))"
    by blast
  with h d e show ?thesis by (intro conjI)
qed

section \<open>Properties of the mutations\<close>

subsection \<open>The storage table only grows\<close>

lemma bulkCreate_Inr:
  assumes "bulkCreate now rows s = Inr s'"
  shows "\<exists>news. s' = s\<lparr>storages := storages s @ news\<rparr> \<and> length news = length rows"
  using assms by (auto simp: bulkCreate_def split: if_splits)

lemma prefix_unawaited_bulkCreate:
  "prefix (storages s) (storages (unawaited (bulkCreate now rows s) s))"
  by (auto simp: unawaited_def dest!: bulkCreate_Inr split: sum.splits)

lemma prefix_collectPallets: "prefix (storages s) (storages (snd (collectPallets chk now inp s)))"
  by (simp add: collectPallets_def Let_def prefix_unawaited_bulkCreate split: option.splits)

lemma prefix_addPallets: "prefix (storages s) (storages (snd (addPallets chk now inp s)))"
  by (simp add: addPallets_def Let_def prefix_unawaited_bulkCreate split: option.splits)

lemma prefix_addStorageToLocation_try:
  "prefix (storages s) (storages (snd (addStorageToLocation_try now lid pid amount s)))"
  by (auto simp: addStorageToLocation_try_def dest!: bulkCreate_Inr split: sum.splits)

lemma snd_addStorageToLocation:
  "snd (addStorageToLocation chk now lid pid amount s) =
     (case chk of Some e \<Rightarrow> s | None \<Rightarrow> snd (addStorageToLocation_try now lid pid amount s))"
  by (simp add: addStorageToLocation_def split: option.splits prod.splits sum.splits)

lemma prefix_addStorageToLocation:
  "prefix (storages s) (storages (snd (addStorageToLocation chk now lid pid amount s)))"
  by (simp add: snd_addStorageToLocation prefix_addStorageToLocation_try split: option.splits)

lemma prefix_applyMutation: "prefix (storages s) (storages (applyMutation m s))"
  by (cases m) (simp_all add: prefix_collectPallets prefix_addPallets prefix_addStorageToLocation)

lemma prefix_applyMutations: "prefix (storages s) (storages (applyMutations ms s))"
proof (induction ms arbitrary: s)
  case Nil
  then show ?case by (simp add: applyMutations_def)
next
  case (Cons m ms)
  have "prefix (storages s) (storages (applyMutation m s))" by (rule prefix_applyMutation)
  also have "prefix \<dots> (storages (applyMutations ms (applyMutation m s)))" by (rule Cons.IH)
  finally show ?case by (simp add: applyMutations_def)
qed

lemma prefix_filter_mono: "prefix xs ys \<Longrightarrow> prefix (filter P xs) (filter P ys)"
  by (auto simp: prefix_def)

text \<open>
  Claim C9. After any sequence of \<open>collectPallets\<close>, \<open>addPallets\<close> and
  \<open>addStorageToLocation\<close> calls, whatever their arguments and outcomes, the storage
  table starts with the table before: no row of it was changed or removed, rows were
  only appended. So the history of every (location, product) key starts with its
  history before.
\<close>

theorem storage_append_only:
  "prefix (storages s) (storages (applyMutations ms s))
   \<and> prefix (history s lid pid) (history (applyMutations ms s) lid pid)"
  using prefix_applyMutations [of s ms] by (simp add: history_def prefix_filter_mono)

subsection \<open>addStorageToLocation\<close>

lemma find_None_iff_not_ex: "find P xs = None \<longleftrightarrow> \<not> list_ex P xs"
  by (auto simp: find_None_iff list_ex_iff)

text \<open>
  Claim C10 says that for a pair with a storage row the mutation raises the error
  \<open>Product already exists for this Location\<close>. That error is thrown inside the \<open>try\<close>
  block and caught there: the mutation raises \<open>Error adding Storage to Location\<close>.
\<close>

theorem addStorageToLocation_message_counterexample:
  "fst (addStorageToLocation None 1706778380162 1 1 10 testData)
     = Inl (Error ''Error adding Storage to Location'')
   \<and> Error ''Error adding Storage to Location'' \<noteq> Error ''Product already exists for this Location''"
  by (simp add: addStorageToLocation_def addStorageToLocation_try_def bulkCreate_def
      inInteger_def nextStorageId_def sqlMax_def Let_def testData_def mkLocation_def
      mkStorage_def mkPrice_def paristolaatikko_def)

text \<open>
  Claim C10, as amended. For a pair (\<open>locationId\<close>, \<open>productId\<close>) that has a storage
  row, \<open>addStorageToLocation\<close> raises an error and leaves the store unchanged: the error
  of the authorization check when that fails, and otherwise
  \<open>Error adding Storage to Location\<close>, which replaces the error of the \<open>try\<close> block
  (\<open>Product already exists for this Location\<close> when the location and the product
  exist). When the mutation returns a row, the pair had no row before, and the store
  is the one before with that row appended, which carries the given location, product
  and amount.
\<close>

theorem addStorageToLocation_existing_key:
  "((\<exists>st \<in> set (storages s). st_locationId st = lid \<and> st_productId st = pid) \<longrightarrow>
      addStorageToLocation chk now lid pid amount s =
        (Inl (case chk of Some e \<Rightarrow> e | None \<Rightarrow> Error ''Error adding Storage to Location''), s)
      \<and> ((\<exists>l \<in> set (locations s). loc_locationId l = lid)
           \<and> (\<exists>p \<in> set (products s). prod_productId p = pid) \<longrightarrow>
         addStorageToLocation_try now lid pid amount s =
           (Inl (Error ''Product already exists for this Location''), s)))
   \<and> (\<forall>st'. fst (addStorageToLocation chk now lid pid amount s) = Inr st' \<longrightarrow>
         \<not> (\<exists>st \<in> set (storages s). st_locationId st = lid \<and> st_productId st = pid)
         \<and> snd (addStorageToLocation chk now lid pid amount s) = s\<lparr>storages := storages s @ [st']\<rparr>
         \<and> st_locationId st' = lid \<and> st_productId st' = pid \<and> st_palletAmount st' = amount)"
  by (auto simp: addStorageToLocation_def addStorageToLocation_try_def Let_def bulkCreate_def
      find_None_iff_not_ex list_ex_iff
      split: option.splits if_splits)

theorem addStorageToLocation_existing_key_witness:
  "(\<exists>st \<in> set (storages testData). st_locationId st = 1 \<and> st_productId st = 1)
   \<and> addStorageToLocation None 1706778380162 1 1 10 testData =
       (Inl (Error ''Error adding Storage to Location''), testData)
   \<and> addStorageToLocation_try 1706778380162 1 1 10 testData =
       (Inl (Error ''Product already exists for this Location''), testData)
   \<and> fst (addStorageToLocation None 1706778380162 1 1 10 facilityData)
       = Inr (mkStorage 2 1 1 10 1706778380162)
   \<and> snd (addStorageToLocation None 1706778380162 1 1 10 facilityData)
       = facilityData\<lparr>storages := storages facilityData @ [mkStorage 2 1 1 10 1706778380162]\<rparr>"
proof -
  have h: "\<exists>st \<in> set (storages testData). st_locationId st = 1 \<and> st_productId st = 1"
    by (simp add: testData_def mkLocation_def mkStorage_def mkPrice_def paristolaatikko_def)
  have l: "(\<exists>l \<in> set (locations testData). loc_locationId l = 1)
           \<and> (\<exists>p \<in> set (products testData). prod_productId p = 1)"
    by (simp add: testData_def mkLocation_def mkStorage_def mkPrice_def paristolaatikko_def)
  have f: "fst (addStorageToLocation None 1706778380162 1 1 10 facilityData)
       = Inr (mkStorage 2 1 1 10 1706778380162)"
    by (simp add: addStorageToLocation_def addStorageToLocation_try_def bulkCreate_def
        inInteger_def nextStorageId_def sqlMax_def Let_def facilityData_def akkukasittely_def
        mkOrder_def mkOrderRow_def mkLocation_def mkStorage_def paristolaatikko_def
        facilityType_def)
  from addStorageToLocation_existing_key [of testData 1 1 None 1706778380162 10] h l
  have a: "addStorageToLocation None 1706778380162 1 1 10 testData =
       (Inl (Error ''Error adding Storage to Location''), testData)"
    and b: "addStorageToLocation_try 1706778380162 1 1 10 testData =
       (Inl (Error ''Product already exists for this Location''), testData)"
    by simp_all
  from addStorageToLocation_existing_key [of facilityData 1 1 None 1706778380162 10] f
  have c: "snd (addStorageToLocation None 1706778380162 1 1 10 facilityData)
       = facilityData\<lparr>storages := storages facilityData @ [mkStorage 2 1 1 10 1706778380162]\<rparr>"
    by blast
  from h a b f c show ?thesis by (intro conjI)
qed

subsection \<open>collectPallets and addPallets\<close>

text \<open>
  Claim C3 says that \<open>addPallets\<close> stores the current quantity of the key plus the
  input, and \<open>collectPallets\<close> the input as it is. \<open>addPallets\<close> looks the current row
  up and does not use it: with 70 pallets of product 1 at location 1, adding 5 stores
  5. \<open>collectPallets\<close> adds the input to the row it finds: collecting with the input
  60 stores 130, and with the input 2147483600 nothing, since the sum does not fit the
  column. The row it finds is one of the whole table: where location 1 has an older
  row of product 2 with the timestamp of the latest row of location 2, collecting 1 at
  location 2, which holds 3, stores 2 + 1.
\<close>

theorem pallets_stored_quantities:
  "last (storages testData) = mkStorage 3 1 1 70 1706126515162
   \<and> storages (snd (addPallets None 1706778380162 addFive testData))
     = storages testData @ [mkStorage 4 1 1 5 1706778380162]
   \<and> storages (snd (collectPallets None 1706778380162 collectSixty testData))
     = storages testData @ [mkStorage 4 1 1 130 1706778380162]
   \<and> storages (snd (collectPallets None 1706778380162 collectLarge testData))
     = storages testData
   \<and> storages (snd (collectPallets None 1706778380162 collectOne sharedStampData))
     = storages sharedStampData @ [mkStorage 4 2 2 3 1706778380162]"
  by (simp add: collectPallets_def addPallets_def collectRows_def addRows_def
      currentStorages_def maxCreatedAtByProduct_def sqlMax_def firstRow_def bulkCreate_def
      unawaited_def inInteger_def nextStorageId_def Let_def collectSixty_def addFive_def
      collectLarge_def collectOne_def sharedStampData_def litiumlaatikko_def testData_def
      mkLocation_def mkStorage_def mkPrice_def paristolaatikko_def)

end
